theory Spec2Isabelle
  imports Complex_Main
begin

section \<open>Numbers\<close>

text \<open>
  The numeric post-processing layer (\<open>src/utils/physics.ts\<close>, \<open>src/utils/uncertainty.ts\<close>)
  computes on JavaScript numbers. The inputs (sparse points, durations, steps,
  confidences, speeds) are taken as finite numbers and modelled as exact reals: the
  rounding and the overflow of IEEE doubles and the sign of zero are not modelled. What a
  division by zero produces is modelled: \<open>jsnum\<close> adds the three non-finite values that
  JavaScript arithmetic returns instead of raising, with the arithmetic of IEEE 754 on
  them.

  Two consequences bound what is stated below. The clock of the interpolation loop is the
  exact sum of the steps, while the doubles of the source accumulate a rounding error at
  every \<open>t += step\<close>, so for a fractional step the last tick can fall on the other side
  of the duration: nothing is stated about the number of samples beyond the cases where
  it does not depend on rounding. And a value that is finite here can overflow in the
  source: nothing is stated about a computed value being finite.
\<close>

datatype jsnum = Num real | PosInf | NegInf | NaN

fun js_neg :: "jsnum \<Rightarrow> jsnum" where
  "js_neg (Num a) = Num (- a)"
| "js_neg PosInf = NegInf"
| "js_neg NegInf = PosInf"
| "js_neg NaN = NaN"

fun js_add :: "jsnum \<Rightarrow> jsnum \<Rightarrow> jsnum" where
  "js_add (Num a) (Num b) = Num (a + b)"
| "js_add (Num a) PosInf = PosInf"
| "js_add (Num a) NegInf = NegInf"
| "js_add PosInf (Num b) = PosInf"
| "js_add PosInf PosInf = PosInf"
| "js_add PosInf NegInf = NaN"
| "js_add NegInf (Num b) = NegInf"
| "js_add NegInf NegInf = NegInf"
| "js_add NegInf PosInf = NaN"
| "js_add NaN y = NaN"
| "js_add x NaN = NaN"

definition js_sub :: "jsnum \<Rightarrow> jsnum \<Rightarrow> jsnum" where
  "js_sub x y = js_add x (js_neg y)"

fun js_mul :: "jsnum \<Rightarrow> jsnum \<Rightarrow> jsnum" where
  "js_mul (Num a) (Num b) = Num (a * b)"
| "js_mul (Num a) PosInf = (if 0 < a then PosInf else if a < 0 then NegInf else NaN)"
| "js_mul (Num a) NegInf = (if 0 < a then NegInf else if a < 0 then PosInf else NaN)"
| "js_mul PosInf (Num b) = (if 0 < b then PosInf else if b < 0 then NegInf else NaN)"
| "js_mul NegInf (Num b) = (if 0 < b then NegInf else if b < 0 then PosInf else NaN)"
| "js_mul PosInf PosInf = PosInf"
| "js_mul PosInf NegInf = NegInf"
| "js_mul NegInf PosInf = NegInf"
| "js_mul NegInf NegInf = PosInf"
| "js_mul NaN y = NaN"
| "js_mul x NaN = NaN"

text \<open>Division: a finite number over zero is an infinity of the sign of the numerator,
  zero over zero is \<open>NaN\<close>; the zero divisor is the positive zero.\<close>

fun js_div :: "jsnum \<Rightarrow> jsnum \<Rightarrow> jsnum" where
  "js_div (Num a) (Num b) =
     (if b \<noteq> 0 then Num (a / b)
      else if 0 < a then PosInf else if a < 0 then NegInf else NaN)"
| "js_div (Num a) PosInf = Num 0"
| "js_div (Num a) NegInf = Num 0"
| "js_div PosInf (Num b) = (if 0 \<le> b then PosInf else NegInf)"
| "js_div NegInf (Num b) = (if 0 \<le> b then NegInf else PosInf)"
| "js_div PosInf PosInf = NaN"
| "js_div PosInf NegInf = NaN"
| "js_div NegInf PosInf = NaN"
| "js_div NegInf NegInf = NaN"
| "js_div NaN y = NaN"
| "js_div x NaN = NaN"

text \<open>The comparison \<open>x < y\<close>: false as soon as one side is \<open>NaN\<close>.\<close>

fun js_lt :: "jsnum \<Rightarrow> jsnum \<Rightarrow> bool" where
  "js_lt (Num a) (Num b) = (a < b)"
| "js_lt (Num a) PosInf = True"
| "js_lt NegInf (Num b) = True"
| "js_lt NegInf PosInf = True"
| "js_lt x y = False"

fun js_abs :: "jsnum \<Rightarrow> jsnum" where
  "js_abs (Num a) = Num \<bar>a\<bar>"
| "js_abs PosInf = PosInf"
| "js_abs NegInf = PosInf"
| "js_abs NaN = NaN"

text \<open>\<open>Math.max\<close> of two arguments: \<open>NaN\<close> as soon as one of them is.\<close>

fun js_max :: "jsnum \<Rightarrow> jsnum \<Rightarrow> jsnum" where
  "js_max NaN y = NaN"
| "js_max x NaN = NaN"
| "js_max x y = (if js_lt x y then y else x)"

text \<open>\<open>Number(t.toFixed(1))\<close>: the nearest multiple of one tenth, a tie going away from
  zero; from \<open>10^21\<close> on, \<open>toFixed\<close> prints the number itself.\<close>

definition toFixed1 :: "real \<Rightarrow> real" where
  "toFixed1 t =
     (if 10 ^ 21 \<le> \<bar>t\<bar> then t
      else if t < 0 then - (of_int \<lfloor>(- t) * 10 + 1 / 2\<rfloor> / 10)
      else of_int \<lfloor>t * 10 + 1 / 2\<rfloor> / 10)"

section \<open>Kinematics: \<open>src/utils/physics.ts\<close>\<close>

text \<open>A sparse point \<open>[time, value]\<close> is a pair; a dense sample is \<open>{time, value}\<close>.\<close>

type_synonym point = "real \<times> real"

record sample =
  sample_time :: real
  sample_value :: jsnum

text \<open>An array read \<open>xs[i]\<close>: \<open>undefined\<close> out of range.\<close>

definition nth_opt :: "'a list \<Rightarrow> nat \<Rightarrow> 'a option" where
  "nth_opt xs i = (if i < length xs then Some (xs ! i) else None)"

text \<open>The inner \<open>while\<close> of \<open>interpolateSeries\<close>: the cursor moves on while the next
  point's time is still less than the clock.\<close>

function advance :: "point list \<Rightarrow> nat \<Rightarrow> real \<Rightarrow> nat" where
  "advance pts currentIdx t =
     (if currentIdx < length pts - 1 \<and> fst (pts ! (currentIdx + 1)) < t
      then advance pts (currentIdx + 1) t
      else currentIdx)"
  by pat_completeness auto
termination
  by (relation "measure (\<lambda>(pts, i, t). length pts - i)") auto

declare advance.simps [simp del]

text \<open>The sample one round of the \<open>for\<close> loop pushes, the cursor already moved.\<close>

definition emit :: "point list \<Rightarrow> nat \<Rightarrow> real \<Rightarrow> sample" where
  "emit pts currentIdx t =
     (case nth_opt pts currentIdx of
        Some p1 \<Rightarrow>
          (case nth_opt pts (currentIdx + 1) of
             Some p2 \<Rightarrow>
               (let range = js_sub (Num (fst p2)) (Num (fst p1));
                    ratio = js_div (js_sub (Num t) (Num (fst p1))) range;
                    v = js_add (Num (snd p1))
                          (js_mul (js_sub (Num (snd p2)) (Num (snd p1))) ratio)
                in \<lparr>sample_time = toFixed1 t, sample_value = js_max (Num 0) v\<rparr>)
           | None \<Rightarrow> \<lparr>sample_time = toFixed1 t, sample_value = Num (snd p1)\<rparr>)
      | None \<Rightarrow> \<lparr>sample_time = toFixed1 t, sample_value = Num 0\<rparr>)"

text \<open>The \<open>for\<close> loop \<open>for (let t = 0; t <= duration; t += step)\<close>. Nothing in the source
  bounds the number of rounds, so the loop is a partial function: \<open>None\<close> is a run that
  never leaves the loop.\<close>

partial_function (option) interpolate_loop ::
  "point list \<Rightarrow> real \<Rightarrow> real \<Rightarrow> real \<Rightarrow> nat \<Rightarrow> sample list \<Rightarrow> sample list option" where
  "interpolate_loop pts duration step t currentIdx dense =
     (if t \<le> duration
      then (let idx = advance pts currentIdx t
            in interpolate_loop pts duration step (t + step) idx (dense @ [emit pts idx t]))
      else Some dense)"

declare interpolate_loop.simps [code]

text \<open>\<open>interpolateSeries(sparse, duration, step)\<close>; \<open>None\<close> for \<open>sparse\<close> is a missing
  array (\<open>!sparse\<close>). The comparator \<open>a[0] - b[0]\<close> sorts by time, points of equal time
  keeping their order.\<close>

definition interpolateSeries :: "point list option \<Rightarrow> real \<Rightarrow> real \<Rightarrow> sample list option" where
  "interpolateSeries sparse duration step =
     (case sparse of
        None \<Rightarrow> Some []
      | Some pts \<Rightarrow>
          if length pts < 2 then Some []
          else interpolate_loop (sort_key fst pts) duration step 0 0 [])"

definition default_step :: real where
  "default_step = 1 / 10"

subsection \<open>Tracked objects\<close>

datatype MotionState = stationary | moving | erratic

text \<open>\<open>TrackedObject\<close> of \<open>src/types.ts\<close>; an optional field is an \<open>option\<close>.\<close>

record TrackedObject =
  obj_id :: int
  obj_label :: string
  firstSeen :: real
  lastSeen :: real
  maxSpeed :: real
  avgConfidence :: real
  motionState :: MotionState
  direction :: string
  speedProfile :: "point list option"
  trajectory :: "point list option"
  flowVector :: "(real \<times> real) option"
  occlusionScore :: "real option"

subsection \<open>Distance and time to collision\<close>

record metric =
  metric_time :: real
  distance :: jsnum
  ttc :: jsnum
  risk :: bool

text \<open>One round of the loop of \<open>computeDistanceAndTTC\<close>: the row pushed for the samples
  \<open>dense1[i]\<close> and \<open>dense2[i]\<close>, from the \<open>distance\<close> the round starts with.\<close>

definition closing_row :: "jsnum \<Rightarrow> sample \<Rightarrow> sample \<Rightarrow> metric" where
  "closing_row running s1 s2 =
     (let v1 = sample_value s1;
          v2 = sample_value s2;
          closingSpeed = js_abs (js_sub v1 v2);
          decremented = js_sub running (js_mul closingSpeed (Num (1 / 10)));
          clamped = (if js_lt decremented (Num 0) then Num 0 else decremented);
          ttc_v = (if js_lt (Num 1) closingSpeed then js_div clamped closingSpeed else Num 10)
      in \<lparr>metric_time = sample_time s1, distance = clamped, ttc = ttc_v,
           risk = (js_lt ttc_v (Num (5 / 2)) \<and> js_lt clamped (Num 20))\<rparr>)"

text \<open>The loop over \<open>i < Math.min(dense1.length, dense2.length)\<close>, the running \<open>distance\<close>
  as its first argument.\<close>

fun ttc_loop :: "jsnum \<Rightarrow> sample list \<Rightarrow> sample list \<Rightarrow> metric list" where
  "ttc_loop running (s1 # dense1) (s2 # dense2) =
     (let row = closing_row running s1 s2
      in row # ttc_loop (distance row) dense1 dense2)"
| "ttc_loop running dense1 dense2 = []"

text \<open>\<open>obj.speedProfile || []\<close>\<close>

definition profile_or_empty :: "TrackedObject \<Rightarrow> point list" where
  "profile_or_empty obj = (case speedProfile obj of None \<Rightarrow> [] | Some pts \<Rightarrow> pts)"

text \<open>\<open>computeDistanceAndTTC(obj1, obj2, duration)\<close>. The unused \<open>isConverging\<close> is left
  out; both series are interpolated with the default step.\<close>

definition computeDistanceAndTTC ::
  "TrackedObject \<Rightarrow> TrackedObject \<Rightarrow> real \<Rightarrow> metric list option" where
  "computeDistanceAndTTC obj1 obj2 duration =
     (case interpolateSeries (Some (profile_or_empty obj1)) duration default_step of
        None \<Rightarrow> None
      | Some dense1 \<Rightarrow>
          (case interpolateSeries (Some (profile_or_empty obj2)) duration default_step of
             None \<Rightarrow> None
           | Some dense2 \<Rightarrow> Some (ttc_loop (Num 50) dense1 dense2)))"

section \<open>Uncertainty propagation: \<open>src/utils/uncertainty.ts\<close>\<close>

datatype EventType = detection | occlusion | braking | impact | other

datatype EventConfidence = high | medium | low

record TimelineEvent =
  ev_id :: string
  ev_label :: string
  timestamp :: real
  ev_type :: EventType
  ev_confidence :: EventConfidence
  frame :: real

record UncertaintyNode =
  objectId :: int
  node_label :: string
  posUncertainty :: real
  velUncertainty :: real
  accelUncertainty :: real
  persistenceRisk :: real

record ConfidenceBudgetRow =
  stage :: string
  inputConf :: real
  loss :: real
  outputConf :: real

datatype BlindSpotType = SPATIAL | TEMPORAL | ANALYTICAL

datatype Severity = LOW | MEDIUM | HIGH

record BlindSpot =
  bs_type :: BlindSpotType
  description :: string
  severity :: Severity

record UncertaintyAnalysis =
  nodes :: "UncertaintyNode list"
  budget :: "ConfidenceBudgetRow list"
  blindSpots :: "BlindSpot list"

text \<open>Decimal printing of the integers that the template literals interpolate, and
  \<open>Array.prototype.join\<close>.\<close>

definition digit_char :: "nat \<Rightarrow> char" where
  "digit_char d = ''0123456789'' ! d"

fun show_nat :: "nat \<Rightarrow> string" where
  "show_nat n =
     (if 10 \<le> n then show_nat (n div 10) @ [digit_char (n mod 10)] else [digit_char n])"

declare show_nat.simps [simp del]

definition show_int :: "int \<Rightarrow> string" where
  "show_int k = (if 0 \<le> k then show_nat (nat k) else CHR ''-'' # show_nat (nat (- k)))"

fun join :: "string \<Rightarrow> string list \<Rightarrow> string" where
  "join sep [] = []"
| "join sep [x] = x"
| "join sep (x # y # ys) = x @ sep @ join sep (y # ys)"

text \<open>Part 1 of \<open>computeUncertaintyMetrics\<close>: the callback of \<open>objects.map\<close>.\<close>

definition node_of :: "TrackedObject \<Rightarrow> UncertaintyNode" where
  "node_of obj =
     (let baseUncertainty = 1 - avgConfidence obj;
          velU = min 1 (baseUncertainty * (12 / 10) + (if 80 < maxSpeed obj then 2 / 10 else 0));
          accelU = min 1 (velU * (15 / 10));
          persistence = min 1 (baseUncertainty + (if motionState obj = erratic then 3 / 10 else 0))
      in \<lparr>objectId = obj_id obj, node_label = obj_label obj,
           posUncertainty = baseUncertainty, velUncertainty = velU,
           accelUncertainty = accelU, persistenceRisk = persistence\<rparr>)"

text \<open>Part 2: the confidence budget.\<close>

definition avgDetectionConf :: "TrackedObject list \<Rightarrow> real" where
  "avgDetectionConf objects =
     (if 0 < length objects
      then foldl (\<lambda>acc o1. acc + avgConfidence o1) 0 objects / real (length objects)
      else 0)"

definition occlusionEvents :: "TimelineEvent list \<Rightarrow> TimelineEvent list" where
  "occlusionEvents events = filter (\<lambda>e. ev_type e = occlusion) events"

definition confidence_budget :: "TrackedObject list \<Rightarrow> TimelineEvent list \<Rightarrow> ConfidenceBudgetRow list" where
  "confidence_budget objects events =
     (let detectionInput = 1;
          detectionLoss = (1 - avgDetectionConf objects) * (15 / 100);
          detectionOutput = detectionInput - detectionLoss;
          trackingLoss = 5 / 100 + real (length (occlusionEvents events)) * (2 / 100);
          trackingOutput = detectionOutput - trackingLoss;
          motionLoss = trackingLoss * (15 / 10);
          motionOutput = trackingOutput - motionLoss;
          dynamicsLoss = 5 / 100;
          dynamicsOutput = motionOutput - dynamicsLoss
      in [\<lparr>stage = ''Raw Detection'', inputConf = detectionInput,
             loss = detectionLoss, outputConf = detectionOutput\<rparr>,
          \<lparr>stage = ''Multi-Object Tracking'', inputConf = detectionOutput,
             loss = trackingLoss, outputConf = trackingOutput\<rparr>,
          \<lparr>stage = ''Motion Estimation'', inputConf = trackingOutput,
             loss = motionLoss, outputConf = motionOutput\<rparr>,
          \<lparr>stage = ''Dynamics Modeling'', inputConf = motionOutput,
             loss = dynamicsLoss, outputConf = dynamicsOutput\<rparr>])"

text \<open>Part 3: the blind spots, pushed in the order of the source.\<close>

definition blind_spots :: "TrackedObject list \<Rightarrow> TimelineEvent list \<Rightarrow> BlindSpot list" where
  "blind_spots objects events =
     (let lowConfObjects = filter (\<lambda>o1. avgConfidence o1 < 6 / 10) objects;
          occl = occlusionEvents events
      in (if 0 < length lowConfObjects
          then [\<lparr>bs_type = ANALYTICAL,
                  description = ''High uncertainty for IDs: ''
                    @ join '', '' (map (\<lambda>o1. show_int (obj_id o1)) lowConfObjects)
                    @ '' due to low detection score.'',
                  severity = HIGH\<rparr>]
          else [])
       @ (if 0 < length occl
          then [\<lparr>bs_type = TEMPORAL,
                  description = show_nat (length occl)
                    @ '' occlusion intervals detected where tracking relies on prediction.'',
                  severity = MEDIUM\<rparr>]
          else [])
       @ [\<lparr>bs_type = SPATIAL,
            description =
              ''Perimeter distortion: Lens geometry reduces accuracy at frame edges > 85%.'',
            severity = LOW\<rparr>])"

definition computeUncertaintyMetrics ::
  "TrackedObject list \<Rightarrow> TimelineEvent list \<Rightarrow> UncertaintyAnalysis" where
  "computeUncertaintyMetrics objects events =
     \<lparr>nodes = map node_of objects,
      budget = confidence_budget objects events,
      blindSpots = blind_spots objects events\<rparr>"

text \<open>The budget's two data-dependent losses, and what the chain being non-increasing
  means: no stage gains confidence, and inputs and outputs fall along the rows.\<close>

definition detection_loss :: "TrackedObject list \<Rightarrow> real" where
  "detection_loss objects = (1 - avgDetectionConf objects) * (15 / 100)"

definition tracking_loss :: "TimelineEvent list \<Rightarrow> real" where
  "tracking_loss events = 5 / 100 + real (length (occlusionEvents events)) * (2 / 100)"

definition chain_non_increasing :: "ConfidenceBudgetRow list \<Rightarrow> bool" where
  "chain_non_increasing rows =
     (list_all (\<lambda>r. outputConf r \<le> inputConf r) rows
      \<and> sorted (rev (map inputConf rows)) \<and> sorted (rev (map outputConf rows)))"

section \<open>Notions used by the statements\<close>

text \<open>The number of rounds of the \<open>for\<close> loop that are left at clock \<open>t\<close>, for a positive
  step, and the samples that \<open>n\<close> rounds push from clock \<open>t\<close> and cursor \<open>currentIdx\<close>.\<close>

definition rounds :: "real \<Rightarrow> real \<Rightarrow> real \<Rightarrow> nat" where
  "rounds duration step t = (if t \<le> duration then nat \<lfloor>(duration - t) / step\<rfloor> + 1 else 0)"

fun run :: "point list \<Rightarrow> real \<Rightarrow> nat \<Rightarrow> real \<Rightarrow> nat \<Rightarrow> sample list" where
  "run pts step 0 t currentIdx = []"
| "run pts step (Suc n) t currentIdx =
     (let idx = advance pts currentIdx t in emit pts idx t # run pts step n (t + step) idx)"



section \<open>Sample inputs\<close>

definition sample_object ::
  "int \<Rightarrow> real \<Rightarrow> real \<Rightarrow> MotionState \<Rightarrow> point list option \<Rightarrow> TrackedObject" where
  "sample_object i conf speed st prof =
     \<lparr>obj_id = i, obj_label = ''car'', firstSeen = 0, lastSeen = 1, maxSpeed = speed,
      avgConfidence = conf, motionState = st, direction = ''north'', speedProfile = prof,
      trajectory = None, flowVector = None, occlusionScore = None\<rparr>"

definition sample_event :: "EventType \<Rightarrow> TimelineEvent" where
  "sample_event ty =
     \<lparr>ev_id = ''e1'', ev_label = ''event'', timestamp = 0, ev_type = ty,
      ev_confidence = high, frame = 0\<rparr>"

section \<open>Properties of the uncertainty propagation\<close>

subsection \<open>Node uncertainty\<close>

lemma node_of_fields [simp]:
  "posUncertainty (node_of obj) = 1 - avgConfidence obj"
  "velUncertainty (node_of obj) =
     min 1 ((1 - avgConfidence obj) * (12 / 10) + (if 80 < maxSpeed obj then 2 / 10 else 0))"
  "accelUncertainty (node_of obj) = min 1 (velUncertainty (node_of obj) * (15 / 10))"
  "persistenceRisk (node_of obj) =
     min 1 ((1 - avgConfidence obj) + (if motionState obj = erratic then 3 / 10 else 0))"
  by (simp_all add: node_of_def Let_def)

lemma nodes_computeUncertaintyMetrics [simp]:
  "nodes (computeUncertaintyMetrics objects events) = map node_of objects"
  by (simp add: computeUncertaintyMetrics_def)

lemma budget_computeUncertaintyMetrics [simp]:
  "budget (computeUncertaintyMetrics objects events) = confidence_budget objects events"
  by (simp add: computeUncertaintyMetrics_def)

lemma blindSpots_computeUncertaintyMetrics [simp]:
  "blindSpots (computeUncertaintyMetrics objects events) = blind_spots objects events"
  by (simp add: computeUncertaintyMetrics_def)

lemma node_of_in_unit:
  assumes "0 \<le> avgConfidence obj" "avgConfidence obj \<le> 1"
  shows "0 \<le> posUncertainty (node_of obj) \<and> posUncertainty (node_of obj) \<le> 1
       \<and> 0 \<le> velUncertainty (node_of obj) \<and> velUncertainty (node_of obj) \<le> 1
       \<and> 0 \<le> accelUncertainty (node_of obj) \<and> accelUncertainty (node_of obj) \<le> 1
       \<and> 0 \<le> persistenceRisk (node_of obj) \<and> persistenceRisk (node_of obj) \<le> 1"
  using assms by (simp add: min_def)

text \<open>
  C2, as amended. The source bounds three of the four fields from above only
  (\<open>Math.min(1, ...)\<close>) and \<open>posUncertainty\<close> not at all, so the fields lie in \<open>[0, 1]\<close>
  for the inputs whose \<open>avgConfidence\<close> is a confidence: whenever every object of the list
  has \<open>0 \<le> avgConfidence \<le> 1\<close>, every node of \<open>computeUncertaintyMetrics\<close> has its four
  fields \<open>posUncertainty\<close>, \<open>velUncertainty\<close>, \<open>accelUncertainty\<close> and \<open>persistenceRisk\<close> in
  the closed interval \<open>[0, 1]\<close>.
\<close>

theorem C2_nodes_in_unit_interval:
  assumes "\<forall>obj \<in> set objects. 0 \<le> avgConfidence obj \<and> avgConfidence obj \<le> 1"
  shows "\<forall>n \<in> set (nodes (computeUncertaintyMetrics objects events)).
           0 \<le> posUncertainty n \<and> posUncertainty n \<le> 1
         \<and> 0 \<le> velUncertainty n \<and> velUncertainty n \<le> 1
         \<and> 0 \<le> accelUncertainty n \<and> accelUncertainty n \<le> 1
         \<and> 0 \<le> persistenceRisk n \<and> persistenceRisk n \<le> 1"
proof
  fix n assume "n \<in> set (nodes (computeUncertaintyMetrics objects events))"
  then obtain obj where o: "obj \<in> set objects" and n: "n = node_of obj" by auto
  from o assms have "0 \<le> avgConfidence obj" "avgConfidence obj \<le> 1" by auto
  then show "0 \<le> posUncertainty n \<and> posUncertainty n \<le> 1
         \<and> 0 \<le> velUncertainty n \<and> velUncertainty n \<le> 1
         \<and> 0 \<le> accelUncertainty n \<and> accelUncertainty n \<le> 1
         \<and> 0 \<le> persistenceRisk n \<and> persistenceRisk n \<le> 1"
    unfolding n by (rule node_of_in_unit)
qed

text \<open>The theorem at a fast, erratic object of confidence 0.9.\<close>

theorem C2_witness:
  "avgConfidence (sample_object 1 (9 / 10) 90 erratic None) = 9 / 10
 \<and> velUncertainty
      (nodes (computeUncertaintyMetrics [sample_object 1 (9 / 10) 90 erratic None] []) ! 0) = 8 / 25
 \<and> 0 \<le> velUncertainty
      (nodes (computeUncertaintyMetrics [sample_object 1 (9 / 10) 90 erratic None] []) ! 0)
 \<and> velUncertainty
      (nodes (computeUncertaintyMetrics [sample_object 1 (9 / 10) 90 erratic None] []) ! 0) \<le> 1"
  using C2_nodes_in_unit_interval [of "[sample_object 1 (9 / 10) 90 erratic None]" "[]"]
  by (simp add: sample_object_def)

text \<open>C2 as stated fails: an \<open>avgConfidence\<close> of 2 gives a \<open>posUncertainty\<close> of \<open>-1\<close>, one
  of \<open>-1\<close> gives 2.\<close>

theorem C2_counterexample:
  "posUncertainty
     (nodes (computeUncertaintyMetrics [sample_object 7 2 40 moving None] []) ! 0) = - 1
 \<and> posUncertainty
     (nodes (computeUncertaintyMetrics [sample_object 7 (- 1) 40 moving None] []) ! 0) = 2"
  by (simp add: sample_object_def)

text \<open>
  C8, as amended. The amplification \<open>velUncertainty * 1.5\<close> raises a value that is not
  negative, and \<open>velUncertainty\<close> has no lower bound in the source: for every object of
  the list whose \<open>avgConfidence\<close> is at most 1, the node produced for it has
  \<open>accelUncertainty \<ge> velUncertainty\<close>.
\<close>

theorem C8_accel_ge_vel:
  assumes "i < length objects" "avgConfidence (objects ! i) \<le> 1"
  shows "velUncertainty (nodes (computeUncertaintyMetrics objects events) ! i)
       \<le> accelUncertainty (nodes (computeUncertaintyMetrics objects events) ! i)"
  using assms by (simp add: min_def)

text \<open>The theorem at scenario B of the specification: confidence 0.9, speed 40.\<close>

theorem C8_witness:
  "velUncertainty
     (nodes (computeUncertaintyMetrics [sample_object 1 (9 / 10) 40 moving None] []) ! 0) = 3 / 25
 \<and> accelUncertainty
     (nodes (computeUncertaintyMetrics [sample_object 1 (9 / 10) 40 moving None] []) ! 0) = 9 / 50
 \<and> velUncertainty
     (nodes (computeUncertaintyMetrics [sample_object 1 (9 / 10) 40 moving None] []) ! 0)
   \<le> accelUncertainty
     (nodes (computeUncertaintyMetrics [sample_object 1 (9 / 10) 40 moving None] []) ! 0)"
  using C8_accel_ge_vel [of 0 "[sample_object 1 (9 / 10) 40 moving None]" "[]"]
  by (simp add: sample_object_def)

text \<open>C8 as stated fails: an \<open>avgConfidence\<close> of 2 gives a \<open>velUncertainty\<close> of \<open>-1.2\<close> and
  an \<open>accelUncertainty\<close> of \<open>-1.8\<close>, which is smaller.\<close>

theorem C8_counterexample:
  "accelUncertainty
     (nodes (computeUncertaintyMetrics [sample_object 7 2 40 moving None] []) ! 0) = - (9 / 5)
 \<and> velUncertainty
     (nodes (computeUncertaintyMetrics [sample_object 7 2 40 moving None] []) ! 0) = - (6 / 5)"
  by (simp add: sample_object_def)

subsection \<open>The confidence budget\<close>

lemma foldl_add_conf:
  "foldl (\<lambda>acc o1. acc + avgConfidence o1) a objects = a + sum_list (map avgConfidence objects)"
  by (induction objects arbitrary: a) simp_all

lemma sum_list_conf_le:
  "\<forall>obj \<in> set objects. avgConfidence obj \<le> 1 \<Longrightarrow>
   sum_list (map avgConfidence objects) \<le> real (length objects)"
  by (induction objects) auto

lemma sum_list_conf_ge:
  "\<forall>obj \<in> set objects. 0 \<le> avgConfidence obj \<Longrightarrow> 0 \<le> sum_list (map avgConfidence objects)"
  by (induction objects) auto

lemma avgDetectionConf_le_1:
  assumes "\<forall>obj \<in> set objects. avgConfidence obj \<le> 1"
  shows "avgDetectionConf objects \<le> 1"
proof (cases "objects = []")
  case True
  then show ?thesis by (simp add: avgDetectionConf_def)
next
  case False
  then have "0 < real (length objects)" by simp
  with sum_list_conf_le [OF assms] show ?thesis
    by (simp add: avgDetectionConf_def foldl_add_conf divide_le_eq)
qed

lemma avgDetectionConf_ge_0:
  assumes "\<forall>obj \<in> set objects. 0 \<le> avgConfidence obj"
  shows "0 \<le> avgDetectionConf objects"
  using sum_list_conf_ge [OF assms] by (simp add: avgDetectionConf_def foldl_add_conf)

text \<open>The four rows, in the two losses that depend on the input.\<close>

lemma confidence_budget_rows:
  "confidence_budget objects events =
     [\<lparr>stage = ''Raw Detection'', inputConf = 1,
        loss = detection_loss objects, outputConf = 1 - detection_loss objects\<rparr>,
      \<lparr>stage = ''Multi-Object Tracking'', inputConf = 1 - detection_loss objects,
        loss = tracking_loss events,
        outputConf = 1 - detection_loss objects - tracking_loss events\<rparr>,
      \<lparr>stage = ''Motion Estimation'',
        inputConf = 1 - detection_loss objects - tracking_loss events,
        loss = tracking_loss events * (15 / 10),
        outputConf = 1 - detection_loss objects - tracking_loss events
                       - tracking_loss events * (15 / 10)\<rparr>,
      \<lparr>stage = ''Dynamics Modeling'',
        inputConf = 1 - detection_loss objects - tracking_loss events
                      - tracking_loss events * (15 / 10),
        loss = 5 / 100,
        outputConf = 1 - detection_loss objects - tracking_loss events
                       - tracking_loss events * (15 / 10) - 5 / 100\<rparr>]"
  by (simp only: confidence_budget_def Let_def detection_loss_def tracking_loss_def)

lemma tracking_loss_ge: "5 / 100 \<le> tracking_loss events"
  by (simp add: tracking_loss_def)

lemma detection_loss_ge:
  "\<forall>obj \<in> set objects. avgConfidence obj \<le> 1 \<Longrightarrow> 0 \<le> detection_loss objects"
  using avgDetectionConf_le_1 [of objects] by (simp add: detection_loss_def)

lemma detection_loss_le:
  "\<forall>obj \<in> set objects. 0 \<le> avgConfidence obj \<Longrightarrow> detection_loss objects \<le> 15 / 100"
  using avgDetectionConf_ge_0 [of objects] by (simp add: detection_loss_def)

lemma tracking_loss_le:
  "length (occlusionEvents events) \<le> 13 \<Longrightarrow> tracking_loss events \<le> 31 / 100"
proof -
  assume "length (occlusionEvents events) \<le> 13"
  then have "real (length (occlusionEvents events)) \<le> 13" by simp
  then show ?thesis by (simp add: tracking_loss_def)
qed

text \<open>
  C4. For every objects list and every events list the budget of
  \<open>computeUncertaintyMetrics\<close> has exactly four rows, in the stage order Raw Detection,
  Multi-Object Tracking, Motion Estimation, Dynamics Modeling; every row has
  \<open>outputConf = inputConf - loss\<close>, and each row's \<open>outputConf\<close> is the next row's
  \<open>inputConf\<close>.
\<close>

theorem C4_budget_chain:
  "length (budget (computeUncertaintyMetrics objects events)) = 4
 \<and> map stage (budget (computeUncertaintyMetrics objects events)) =
     [''Raw Detection'', ''Multi-Object Tracking'', ''Motion Estimation'', ''Dynamics Modeling'']
 \<and> list_all (\<lambda>r. outputConf r = inputConf r - loss r)
     (budget (computeUncertaintyMetrics objects events))
 \<and> outputConf (budget (computeUncertaintyMetrics objects events) ! 0)
     = inputConf (budget (computeUncertaintyMetrics objects events) ! 1)
 \<and> outputConf (budget (computeUncertaintyMetrics objects events) ! 1)
     = inputConf (budget (computeUncertaintyMetrics objects events) ! 2)
 \<and> outputConf (budget (computeUncertaintyMetrics objects events) ! 2)
     = inputConf (budget (computeUncertaintyMetrics objects events) ! 3)"
  by (simp add: confidence_budget_rows)

text \<open>The chain for one object of confidence 0.9 and one occlusion among two events.\<close>

theorem C4_witness:
  "map outputConf (budget (computeUncertaintyMetrics [sample_object 1 (9 / 10) 40 moving None]
      [sample_event occlusion, sample_event braking])) = [197 / 200, 183 / 200, 81 / 100, 19 / 25]
 \<and> map inputConf (budget (computeUncertaintyMetrics [sample_object 1 (9 / 10) 40 moving None]
      [sample_event occlusion, sample_event braking])) = [1, 197 / 200, 183 / 200, 81 / 100]"
  using C4_budget_chain [of "[sample_object 1 (9 / 10) 40 moving None]"
      "[sample_event occlusion, sample_event braking]"]
  by (simp add: confidence_budget_def Let_def sample_object_def sample_event_def
      avgDetectionConf_def occlusionEvents_def)

text \<open>
  C3, as amended. The source subtracts the losses and clamps nothing. When every object
  has \<open>0 \<le> avgConfidence \<le> 1\<close>, every loss is non-negative, so each row's \<open>outputConf\<close>
  is at most its \<open>inputConf\<close> and the confidences never increase from a row to the next;
  when moreover at most 13 events are occlusions, no confidence of the four rows is
  below 0.
\<close>

theorem C3_budget_monotone:
  assumes "\<forall>obj \<in> set objects. 0 \<le> avgConfidence obj \<and> avgConfidence obj \<le> 1"
  shows "chain_non_increasing (budget (computeUncertaintyMetrics objects events))
       \<and> (length (occlusionEvents events) \<le> 13 \<longrightarrow>
            list_all (\<lambda>r. 0 \<le> inputConf r \<and> 0 \<le> outputConf r)
              (budget (computeUncertaintyMetrics objects events)))"
proof -
  have d0: "0 \<le> detection_loss objects" using assms by (intro detection_loss_ge) auto
  have d1: "detection_loss objects \<le> 15 / 100" using assms by (intro detection_loss_le) auto
  have t0: "5 / 100 \<le> tracking_loss events" by (rule tracking_loss_ge)
  have mono: "chain_non_increasing (budget (computeUncertaintyMetrics objects events))"
    using d0 t0 by (simp add: chain_non_increasing_def confidence_budget_rows)
  have pos: "list_all (\<lambda>r. 0 \<le> inputConf r \<and> 0 \<le> outputConf r)
              (budget (computeUncertaintyMetrics objects events))"
    if "length (occlusionEvents events) \<le> 13"
    using d1 t0 tracking_loss_le [OF that] by (simp add: confidence_budget_rows)
  from mono pos show ?thesis by blast
qed

text \<open>The theorem for one object of confidence 0.9 and one occlusion.\<close>

theorem C3_witness:
  "avgConfidence (sample_object 1 (9 / 10) 40 moving None) = 9 / 10
 \<and> length (occlusionEvents [sample_event occlusion, sample_event braking]) = 1
 \<and> chain_non_increasing (budget (computeUncertaintyMetrics [sample_object 1 (9 / 10) 40 moving None]
      [sample_event occlusion, sample_event braking]))
 \<and> list_all (\<lambda>r. 0 \<le> inputConf r \<and> 0 \<le> outputConf r)
      (budget (computeUncertaintyMetrics [sample_object 1 (9 / 10) 40 moving None]
      [sample_event occlusion, sample_event braking]))"
  using C3_budget_monotone [of "[sample_object 1 (9 / 10) 40 moving None]"
      "[sample_event occlusion, sample_event braking]"]
  by (simp add: sample_object_def sample_event_def occlusionEvents_def)

text \<open>C3 as stated fails twice: with no object and 14 occlusions the last \<open>outputConf\<close> is
  \<open>-0.025\<close>; with one object of \<open>avgConfidence\<close> 2 the first row's \<open>outputConf\<close> 1.15
  exceeds its \<open>inputConf\<close> 1.\<close>

theorem C3_counterexample:
  "outputConf (budget (computeUncertaintyMetrics []
      (replicate 14 (sample_event occlusion))) ! 3) = - (1 / 40)
 \<and> inputConf (budget (computeUncertaintyMetrics [sample_object 7 2 40 moving None] []) ! 0) = 1
 \<and> outputConf (budget (computeUncertaintyMetrics [sample_object 7 2 40 moving None] []) ! 0)
     = 23 / 20"
  by (simp add: confidence_budget_def Let_def sample_object_def sample_event_def
      avgDetectionConf_def occlusionEvents_def)

subsection \<open>Blind spots\<close>

text \<open>
  C9. For every objects list and events list the blind spots of
  \<open>computeUncertaintyMetrics\<close> are not empty and end with the SPATIAL finding of LOW
  severity; the types appear in the order ANALYTICAL (when some object has
  \<open>avgConfidence < 0.6\<close>), TEMPORAL (when some event is an occlusion), SPATIAL; and
  for a single object of \<open>avgConfidence = 0.5\<close> the first entry is ANALYTICAL with HIGH
  severity.
\<close>

theorem C9_blind_spots:
  "blindSpots (computeUncertaintyMetrics objects events) \<noteq> []
 \<and> last (blindSpots (computeUncertaintyMetrics objects events)) =
     \<lparr>bs_type = SPATIAL,
      description = ''Perimeter distortion: Lens geometry reduces accuracy at frame edges > 85%.'',
      severity = LOW\<rparr>
 \<and> map bs_type (blindSpots (computeUncertaintyMetrics objects events)) =
     (if \<exists>obj \<in> set objects. avgConfidence obj < 6 / 10 then [ANALYTICAL] else [])
     @ (if \<exists>e \<in> set events. ev_type e = occlusion then [TEMPORAL] else [])
     @ [SPATIAL]
 \<and> (\<forall>obj. avgConfidence obj = 1 / 2 \<longrightarrow>
       bs_type (hd (blindSpots (computeUncertaintyMetrics [obj] events))) = ANALYTICAL
     \<and> severity (hd (blindSpots (computeUncertaintyMetrics [obj] events))) = HIGH)"
  by (auto simp add: blind_spots_def Let_def occlusionEvents_def filter_empty_conv)

text \<open>The theorem for one object of confidence 0.5 and one occlusion.\<close>

theorem C9_witness:
  "avgConfidence (sample_object 12 (1 / 2) 40 moving None) = 1 / 2
 \<and> map bs_type (blindSpots (computeUncertaintyMetrics [sample_object 12 (1 / 2) 40 moving None]
       [sample_event occlusion])) = [ANALYTICAL, TEMPORAL, SPATIAL]
 \<and> bs_type (hd (blindSpots (computeUncertaintyMetrics [sample_object 12 (1 / 2) 40 moving None]
       [sample_event occlusion]))) = ANALYTICAL
 \<and> severity (hd (blindSpots (computeUncertaintyMetrics [sample_object 12 (1 / 2) 40 moving None]
       [sample_event occlusion]))) = HIGH"
  using C9_blind_spots [of "[sample_object 12 (1 / 2) 40 moving None]" "[sample_event occlusion]"]
  by (simp add: sample_object_def sample_event_def)

section \<open>Properties of the kinematics\<close>

subsection \<open>The loop of \<open>interpolateSeries\<close>\<close>

text \<open>For a positive step the loop returns, after \<open>rounds\<close> rounds; for a step that is
  zero or negative it never leaves a clock that is within the duration.\<close>

lemma rounds_step:
  assumes "0 < step" "t \<le> duration"
  shows "rounds duration step t = Suc (rounds duration step (t + step))"
proof (cases "t + step \<le> duration")
  case True
  have "(duration - (t + step)) / step = (duration - t) / step - 1"
    using assms(1) by (simp add: field_simps)
  moreover have "1 \<le> (duration - t) / step" using True assms(1) by (simp add: field_simps)
  then have "1 \<le> \<lfloor>(duration - t) / step\<rfloor>" by linarith
  ultimately show ?thesis using True assms(2) by (simp add: rounds_def nat_diff_distrib')
next
  case False
  then have "(duration - t) / step < 1" using assms(1) by (simp add: field_simps)
  moreover have "0 \<le> (duration - t) / step" using assms by simp
  ultimately have "\<lfloor>(duration - t) / step\<rfloor> = 0" by linarith
  then show ?thesis using False assms(2) by (simp add: rounds_def)
qed

lemma interpolate_loop_run:
  assumes "0 < step"
  shows "interpolate_loop pts duration step t currentIdx dense
       = Some (dense @ run pts step (rounds duration step t) t currentIdx)"
proof (induction "rounds duration step t" arbitrary: t currentIdx dense)
  case 0
  then have "\<not> t \<le> duration" by (simp add: rounds_def split: if_splits)
  with 0 show ?case by (subst interpolate_loop.simps) simp
next
  case (Suc n)
  then have le: "t \<le> duration" by (simp add: rounds_def split: if_splits)
  from rounds_step [OF assms le] Suc.hyps(2) have n: "n = rounds duration step (t + step)" by simp
  have r: "rounds duration step t = Suc (rounds duration step (t + step))"
    by (rule rounds_step [OF assms le])
  show ?case
    by (subst interpolate_loop.simps) (simp add: le Let_def Suc.hyps(1) [OF n] r)
qed

lemma interpolate_loop_diverges:
  assumes "interpolate_loop pts duration step t currentIdx dense = Some res"
  shows "\<not> (step \<le> 0 \<and> t \<le> duration)"
proof (rule interpolate_loop.raw_induct
    [where P = "\<lambda>pts duration step t currentIdx dense res. \<not> (step \<le> 0 \<and> t \<le> duration)",
      OF _ assms])
  fix loop :: "point list \<Rightarrow> real \<Rightarrow> real \<Rightarrow> real \<Rightarrow> nat \<Rightarrow> sample list \<Rightarrow> sample list option"
  fix pts duration step t currentIdx dense res
  assume IH: "\<And>pts duration step t currentIdx dense res.
      loop pts duration step t currentIdx dense = Some res \<Longrightarrow> \<not> (step \<le> 0 \<and> t \<le> duration)"
    and body: "(if t \<le> duration
      then let idx = advance pts currentIdx t
           in loop pts duration step (t + step) idx (dense @ [emit pts idx t])
      else Some dense) = Some res"
  show "\<not> (step \<le> 0 \<and> t \<le> duration)"
  proof
    assume a: "step \<le> 0 \<and> t \<le> duration"
    with body have "loop pts duration step (t + step) (advance pts currentIdx t)
        (dense @ [emit pts (advance pts currentIdx t) t]) = Some res"
      by (simp add: Let_def)
    from IH [OF this] a show False by simp
  qed
qed

lemma interpolate_loop_None:
  "step \<le> 0 \<Longrightarrow> t \<le> duration \<Longrightarrow> interpolate_loop pts duration step t currentIdx dense = None"
  using interpolate_loop_diverges [of pts duration step t currentIdx dense]
  by (cases "interpolate_loop pts duration step t currentIdx dense") auto

lemma advance_advance:
  "t \<le> t' \<Longrightarrow> advance pts (advance pts i t) t' = advance pts i t'"
proof (induction pts i t rule: advance.induct)
  case (1 pts i t)
  show ?case
  proof (cases "i < length pts - 1 \<and> fst (pts ! (i + 1)) < t")
    case True
    then have "advance pts i t = advance pts (i + 1) t" by (subst advance.simps) simp
    moreover from True "1.prems" have "advance pts i t' = advance pts (i + 1) t'"
      by (subst advance.simps) simp
    ultimately show ?thesis using "1.IH" [OF True "1.prems"] by simp
  next
    case False
    then have "advance pts i t = i" by (subst advance.simps) auto
    then show ?thesis by simp
  qed
qed

lemma run_closed_form:
  "0 \<le> step \<Longrightarrow>
   run pts step n t i =
     map (\<lambda>k. emit pts (advance pts i (t + real k * step)) (t + real k * step)) [0..<n]"
proof (induction n arbitrary: t i)
  case 0
  then show ?case by simp
next
  case (Suc n)
  have "t \<le> t + step + real k * step" for k using Suc.prems by simp
  then have adv: "advance pts (advance pts i t) (t + step + real k * step)
      = advance pts i (t + step + real k * step)" for k
    by (rule advance_advance)
  have eq: "t + step + real k * step = t + (1 + real k) * step" for k
    by (simp add: algebra_simps)
  show ?case
    unfolding run.simps Let_def Suc.IH [OF Suc.prems] map_upt_Suc
    by (simp add: adv) (simp add: eq)
qed

lemma length_run [simp]: "length (run pts step n t i) = n"
  by (induction n arbitrary: t i) (simp_all add: Let_def)

subsection \<open>The emitted samples\<close>


lemma js_max_Num [simp]: "js_max (Num a) (Num b) = Num (max a b)"
  by (simp add: max_def)


lemma emit_flat:
  "i < length pts \<Longrightarrow> \<not> i + 1 < length pts \<Longrightarrow>
   emit pts i t = \<lparr>sample_time = toFixed1 t, sample_value = Num (snd (pts ! i))\<rparr>"
  by (simp add: emit_def nth_opt_def)

lemma interpolateSeries_closed_form:
  assumes "0 < step" "2 \<le> length pts"
  shows "interpolateSeries (Some pts) duration step =
     Some (map (\<lambda>k. emit (sort_key fst pts) (advance (sort_key fst pts) 0 (real k * step))
                      (real k * step))
             [0..<rounds duration step 0])"
  using assms by (simp add: interpolateSeries_def interpolate_loop_run run_closed_form)

lemma interpolateSeries_short:
  "length pts < 2 \<Longrightarrow> interpolateSeries (Some pts) duration step = Some []"
  by (simp add: interpolateSeries_def)

lemma interpolateSeries_returns:
  assumes "0 < step"
  shows "\<exists>dense. interpolateSeries sparse duration step = Some dense"
  using assms by (simp add: interpolateSeries_def interpolate_loop_run split: option.splits)

text \<open>
  C1. The claim is that every sample of \<open>interpolateSeries\<close> has a value \<open>\<ge> 0\<close>. The
  source clamps in the interpolating branch only (\<open>Math.max(0, value)\<close>); the branch that
  holds the last point flat pushes \<open>p1[1]\<close> as it is. At the sparse points
  \<open>[[0, 1], [1, -5]]\<close>, duration 2 and step 1, the sample at clock 1 is the clamped 0 and
  the sample at clock 2 is the held value \<open>-5\<close>.
\<close>

theorem C1_flat_extrapolation_negative:
  "interpolateSeries (Some [(0, 1), (1, - 5)]) 2 1 =
     Some [\<lparr>sample_time = 0, sample_value = Num 1\<rparr>,
           \<lparr>sample_time = 1, sample_value = Num 0\<rparr>,
           \<lparr>sample_time = 2, sample_value = Num (- 5)\<rparr>]"
  by code_simp



text \<open>
  C6, as amended. For every sparse list (missing, empty, a single point, points of equal
  time), every duration (0 included) and every step greater than 0, \<open>interpolateSeries\<close>
  returns a sequence of samples. The sequence is empty exactly when there are fewer than
  two points or the duration is negative, and for two points or more and duration 0 it
  has exactly one sample.
\<close>

theorem C6_interpolate_returns:
  assumes "0 < step"
  shows "interpolateSeries None duration step = Some []
       \<and> (\<exists>dense. interpolateSeries (Some pts) duration step = Some dense
            \<and> (dense = [] \<longleftrightarrow> length pts < 2 \<or> duration < 0)
            \<and> (2 \<le> length pts \<and> duration = 0 \<longrightarrow> length dense = 1))"
proof (cases "length pts < 2")
  case True
  then show ?thesis by (simp add: interpolateSeries_short) (simp add: interpolateSeries_def)
next
  case False
  then have len: "2 \<le> length pts" by simp
  have none: "interpolateSeries None duration step = Some []"
    by (simp add: interpolateSeries_def)
  have empty: "rounds duration step 0 = 0 \<longleftrightarrow> duration < 0"
    by (simp add: rounds_def)
  have one: "rounds 0 step 0 = 1"
    by (simp add: rounds_def)
  show ?thesis
    unfolding interpolateSeries_closed_form [OF assms len]
    using False none empty one by auto
qed

text \<open>The theorem at the points \<open>[[0,4],[1,0]]\<close>: three samples for duration 1 and step
  0.5, one sample for duration 0, none for duration \<open>-1\<close>.\<close>

theorem C6_witness:
  "(0 :: real) < 1 / 2
 \<and> interpolateSeries (Some [(0, 4), (1, 0)]) 1 (1 / 2) =
     Some [\<lparr>sample_time = 0, sample_value = Num 4\<rparr>,
           \<lparr>sample_time = 1 / 2, sample_value = Num 2\<rparr>,
           \<lparr>sample_time = 1, sample_value = Num 0\<rparr>]
 \<and> interpolateSeries (Some [(0, 4), (1, 0)]) (- 1) (1 / 2) = Some []
 \<and> (\<exists>dense. interpolateSeries (Some [(0, 4), (1, 0)]) 0 (1 / 2) = Some dense
       \<and> dense \<noteq> [] \<and> length dense = 1)"
proof -
  have pre: "(0 :: real) < 1 / 2" by simp
  have run: "interpolateSeries (Some [(0, 4), (1, 0)]) 1 (1 / 2) =
     Some [\<lparr>sample_time = 0, sample_value = Num 4\<rparr>,
           \<lparr>sample_time = 1 / 2, sample_value = Num 2\<rparr>,
           \<lparr>sample_time = 1, sample_value = Num 0\<rparr>]"
    by code_simp
  from C6_interpolate_returns [OF pre, of "- 1" "[(0, 4), (1, 0)]"]
  have neg: "interpolateSeries (Some [(0, 4), (1, 0)]) (- 1) (1 / 2) = Some []"
    by auto
  from C6_interpolate_returns [OF pre, of 0 "[(0, 4), (1, 0)]"]
  have zero: "\<exists>dense. interpolateSeries (Some [(0, 4), (1, 0)]) 0 (1 / 2) = Some dense
       \<and> dense \<noteq> [] \<and> length dense = 1"
    by auto
  from pre run neg zero show ?thesis by blast
qed

text \<open>C6 as stated fails: with step 0 the loop never ends; two points of equal time make
  the interior division one by zero, and the sample is \<open>NaN\<close> or an infinity.\<close>

theorem C6_counterexample:
  "interpolateSeries (Some [(0, 0), (1, 1)]) 1 0 = None
 \<and> interpolateSeries (Some [(0, 5), (0, 5)]) 0 1 = Some [\<lparr>sample_time = 0, sample_value = NaN\<rparr>]
 \<and> interpolateSeries (Some [(5, 3), (5, 1)]) 0 1 = Some [\<lparr>sample_time = 0, sample_value = PosInf\<rparr>]"
  by (simp add: interpolateSeries_def interpolate_loop_None)
     (simp add: interpolate_loop.simps advance.simps emit_def nth_opt_def
       toFixed1_def js_sub_def Let_def)

subsection \<open>Distance and time to collision\<close>

lemma clamp_js_max: "(if js_lt x (Num 0) then Num 0 else x) = js_max (Num 0) x"
  by (cases x) auto

lemma ttc_loop_Cons:
  "ttc_loop running (s1 # dense1) (s2 # dense2) =
     closing_row running s1 s2 # ttc_loop (distance (closing_row running s1 s2)) dense1 dense2"
  by (simp add: Let_def)

lemma closing_row_fields:
  "metric_time (closing_row running s1 s2) = sample_time s1"
  "distance (closing_row running s1 s2) =
     js_max (Num 0)
       (js_sub running (js_mul (js_abs (js_sub (sample_value s1) (sample_value s2))) (Num (1 / 10))))"
  "ttc (closing_row running s1 s2) =
     (if js_lt (Num 1) (js_abs (js_sub (sample_value s1) (sample_value s2)))
      then js_div (distance (closing_row running s1 s2))
             (js_abs (js_sub (sample_value s1) (sample_value s2)))
      else Num 10)"
  "risk (closing_row running s1 s2) =
     (js_lt (ttc (closing_row running s1 s2)) (Num (5 / 2))
      \<and> js_lt (distance (closing_row running s1 s2)) (Num 20))"
  by (simp_all add: closing_row_def Let_def clamp_js_max)

lemma length_ttc_loop:
  "length (ttc_loop running dense1 dense2) = min (length dense1) (length dense2)"
  by (induction running dense1 dense2 rule: ttc_loop.induct) (simp_all add: Let_def)

lemma ttc_loop_nth:
  assumes "i < length (ttc_loop running dense1 dense2)"
  shows "ttc_loop running dense1 dense2 ! i =
     closing_row (if i = 0 then running else distance (ttc_loop running dense1 dense2 ! (i - 1)))
       (dense1 ! i) (dense2 ! i)"
  using assms
proof (induction dense1 arbitrary: running dense2 i)
  case Nil
  then show ?case by simp
next
  case (Cons s1 dense1)
  show ?case
  proof (cases dense2)
    case Nil
    with Cons.prems show ?thesis by simp
  next
    case c2: (Cons s2 rest2)
    show ?thesis
    proof (cases i)
      case 0
      then show ?thesis unfolding c2 ttc_loop_Cons by simp
    next
      case (Suc j)
      with Cons.prems have j: "j < length (ttc_loop (distance (closing_row running s1 s2)) dense1 rest2)"
        unfolding c2 ttc_loop_Cons by simp
      show ?thesis
        unfolding Suc c2 ttc_loop_Cons using Cons.IH [OF j] by (cases j) simp_all
    qed
  qed
qed

lemma computeDistanceAndTTC_eq:
  assumes "interpolateSeries (Some (profile_or_empty obj1)) duration default_step = Some dense1"
      and "interpolateSeries (Some (profile_or_empty obj2)) duration default_step = Some dense2"
  shows "computeDistanceAndTTC obj1 obj2 duration = Some (ttc_loop (Num 50) dense1 dense2)"
  using assms by (simp add: computeDistanceAndTTC_def)

text \<open>
  C7. For every pair of tracked objects and every duration, both profiles are
  interpolated with step 0.1 and \<open>computeDistanceAndTTC\<close> returns as many rows as the
  shorter of the two dense series has samples. At each index, with \<open>closingSpeed\<close> the
  absolute difference of the two interpolated speeds and \<open>previous\<close> the distance of the
  row before (50 at index 0): the distance is \<open>Math.max(0, previous - closingSpeed * 0.1)\<close>,
  \<open>ttc\<close> is \<open>distance / closingSpeed\<close> when \<open>closingSpeed > 1\<close> and 10 otherwise, and
  \<open>risk\<close> holds exactly when \<open>ttc < 2.5\<close> and \<open>distance < 20\<close>.
\<close>

theorem C7_closing_metrics:
  "\<exists>dense1 dense2 res.
      interpolateSeries (Some (profile_or_empty obj1)) duration default_step = Some dense1
    \<and> interpolateSeries (Some (profile_or_empty obj2)) duration default_step = Some dense2
    \<and> computeDistanceAndTTC obj1 obj2 duration = Some res
    \<and> length res = min (length dense1) (length dense2)
    \<and> (\<forall>i < length res.
          let closingSpeed = js_abs (js_sub (sample_value (dense1 ! i)) (sample_value (dense2 ! i)));
              previous = (if i = 0 then Num 50 else distance (res ! (i - 1)))
          in distance (res ! i)
               = js_max (Num 0) (js_sub previous (js_mul closingSpeed (Num (1 / 10))))
           \<and> ttc (res ! i)
               = (if js_lt (Num 1) closingSpeed then js_div (distance (res ! i)) closingSpeed
                  else Num 10)
           \<and> risk (res ! i)
               = (js_lt (ttc (res ! i)) (Num (5 / 2)) \<and> js_lt (distance (res ! i)) (Num 20)))"
proof -
  have pos: "0 < default_step" by (simp add: default_step_def)
  obtain dense1 where d1:
    "interpolateSeries (Some (profile_or_empty obj1)) duration default_step = Some dense1"
    using interpolateSeries_returns [OF pos] by blast
  obtain dense2 where d2:
    "interpolateSeries (Some (profile_or_empty obj2)) duration default_step = Some dense2"
    using interpolateSeries_returns [OF pos] by blast
  let ?res = "ttc_loop (Num 50) dense1 dense2"
  have row: "let closingSpeed = js_abs (js_sub (sample_value (dense1 ! i)) (sample_value (dense2 ! i)));
              previous = (if i = 0 then Num 50 else distance (?res ! (i - 1)))
          in distance (?res ! i)
               = js_max (Num 0) (js_sub previous (js_mul closingSpeed (Num (1 / 10))))
           \<and> ttc (?res ! i)
               = (if js_lt (Num 1) closingSpeed then js_div (distance (?res ! i)) closingSpeed
                  else Num 10)
           \<and> risk (?res ! i)
               = (js_lt (ttc (?res ! i)) (Num (5 / 2)) \<and> js_lt (distance (?res ! i)) (Num 20))"
    if "i < length ?res" for i
  proof -
    define prev where "prev = (if i = 0 then Num 50 else distance (?res ! (i - 1)))"
    have r: "?res ! i = closing_row prev (dense1 ! i) (dense2 ! i)"
      unfolding prev_def by (rule ttc_loop_nth [OF that])
    show ?thesis
      unfolding Let_def prev_def [symmetric] r by (simp only: closing_row_fields simp_thms)
  qed
  show ?thesis
    using d1 d2 computeDistanceAndTTC_eq [OF d1 d2] length_ttc_loop [of "Num 50" dense1 dense2] row
    by blast
qed

text \<open>The theorem for a profile rising from 0 to 100 against one resting at 0, over
  0.2 seconds.\<close>

theorem C7_witness:
  "computeDistanceAndTTC (sample_object 1 1 30 moving (Some [(0, 0), (1, 100)]))
      (sample_object 2 1 30 moving (Some [(0, 0), (1, 0)])) (1 / 5)
    = Some [\<lparr>metric_time = 0, distance = Num 50, ttc = Num 10, risk = False\<rparr>,
            \<lparr>metric_time = 1 / 10, distance = Num 49, ttc = Num (49 / 10), risk = False\<rparr>,
            \<lparr>metric_time = 1 / 5, distance = Num 47, ttc = Num (47 / 20), risk = False\<rparr>]
 \<and> (\<exists>dense1 dense2 res.
      interpolateSeries (Some (profile_or_empty (sample_object 1 1 30 moving (Some [(0, 0), (1, 100)]))))
        (1 / 5) default_step = Some dense1
    \<and> interpolateSeries (Some (profile_or_empty (sample_object 2 1 30 moving (Some [(0, 0), (1, 0)]))))
        (1 / 5) default_step = Some dense2
    \<and> computeDistanceAndTTC (sample_object 1 1 30 moving (Some [(0, 0), (1, 100)]))
        (sample_object 2 1 30 moving (Some [(0, 0), (1, 0)])) (1 / 5) = Some res
    \<and> length res = min (length dense1) (length dense2)
    \<and> (\<forall>i < length res.
          let closingSpeed = js_abs (js_sub (sample_value (dense1 ! i)) (sample_value (dense2 ! i)));
              previous = (if i = 0 then Num 50 else distance (res ! (i - 1)))
          in distance (res ! i)
               = js_max (Num 0) (js_sub previous (js_mul closingSpeed (Num (1 / 10))))
           \<and> ttc (res ! i)
               = (if js_lt (Num 1) closingSpeed then js_div (distance (res ! i)) closingSpeed
                  else Num 10)
           \<and> risk (res ! i)
               = (js_lt (ttc (res ! i)) (Num (5 / 2)) \<and> js_lt (distance (res ! i)) (Num 20))))"
proof -
  have run: "computeDistanceAndTTC (sample_object 1 1 30 moving (Some [(0, 0), (1, 100)]))
      (sample_object 2 1 30 moving (Some [(0, 0), (1, 0)])) (1 / 5)
    = Some [\<lparr>metric_time = 0, distance = Num 50, ttc = Num 10, risk = False\<rparr>,
            \<lparr>metric_time = 1 / 10, distance = Num 49, ttc = Num (49 / 10), risk = False\<rparr>,
            \<lparr>metric_time = 1 / 5, distance = Num 47, ttc = Num (47 / 20), risk = False\<rparr>]"
    by code_simp
  from run C7_closing_metrics [of "sample_object 1 1 30 moving (Some [(0, 0), (1, 100)])" "1 / 5"
      "sample_object 2 1 30 moving (Some [(0, 0), (1, 0)])"]
  show ?thesis by (rule conjI)
qed

text \<open>
  C10. The claim is that the distances of \<open>computeDistanceAndTTC\<close> start from 50, never
  increase and stay in the closed interval \<open>[0, 50]\<close>. The source clamps with
  \<open>if (distance < 0) distance = 0\<close>, which a \<open>NaN\<close> passes, and \<open>interpolateSeries\<close>
  divides by \<open>p2[0] - p1[0]\<close> without the guard that the other divisions of the file
  have (\<open>dt > 0\<close> in \<open>computeAcceleration\<close>, \<open>closingSpeed > 1\<close> for \<open>ttc\<close>). For a first
  object whose speed profile is \<open>[[0, 5], [0, 5]]\<close>, a second one whose profile is
  \<open>[[0, 1], [1, 2]]\<close> and duration 0, the one row that is returned has the distance
  \<open>NaN\<close>.
\<close>

theorem C10_nan_distance:
  "computeDistanceAndTTC (sample_object 1 1 30 moving (Some [(0, 5), (0, 5)]))
     (sample_object 2 1 30 moving (Some [(0, 1), (1, 2)])) 0
   = Some [\<lparr>metric_time = 0, distance = NaN, ttc = Num 10, risk = False\<rparr>]"
  by code_simp

end
